theory Spec2Isabelle
  imports Main "HOL-Library.Char_ord" "HOL-Library.Sublist"
begin

section \<open>The Go standard library's IP address parser\<close>

text \<open>
  \<^verbatim>\<open>getIp4Targets\<close> decides which targets survive with \<^verbatim>\<open>net.ParseIP\<close> and
  \<^verbatim>\<open>IP.To4\<close>. Both belong to Go's standard library (package \<^verbatim>\<open>net\<close>, file
  \<^verbatim>\<open>ip.go\<close> and \<^verbatim>\<open>parse.go\<close>), not to this repository; they are embedded here after
  the library's text, function by function, so that the filter can be run on concrete
  targets. A Go string is a sequence of bytes, which is what \<^typ>\<open>string\<close> is; a byte
  of an address is a \<^typ>\<open>nat\<close> below 256; an \<^verbatim>\<open>IP\<close> is a byte slice, and the nil
  slice is \<^term>\<open>None\<close>.
\<close>

type_synonym IP = "nat list option"

definition IPv4len :: nat where
  "IPv4len = 4"

definition IPv6len :: nat where
  "IPv6len = 16"

definition big :: nat where
  "big = 0xFFFFFF"

definition v4InV6Prefix :: "nat list" where
  "v4InV6Prefix = [0, 0, 0, 0, 0, 0, 0, 0, 0, 0, 0xff, 0xff]"

text \<open>\<^verbatim>\<open>IPv4(a, b, c, d)\<close>: the 16-byte form of the IPv4 address a.b.c.d.\<close>

definition IPv4 :: "nat \<Rightarrow> nat \<Rightarrow> nat \<Rightarrow> nat \<Rightarrow> nat list" where
  "IPv4 a b c d = v4InV6Prefix @ [a, b, c, d]"

text \<open>
  \<^verbatim>\<open>dtoi\<close>: decimal to integer. Returns the number, the count of characters consumed
  and success; the loop stops at the first character that is not a digit, and gives up
  once the number reaches \<^term>\<open>big\<close>.
\<close>

fun dtoi_loop :: "string \<Rightarrow> nat \<Rightarrow> nat \<Rightarrow> nat \<times> nat \<times> bool" where
  "dtoi_loop [] n i = (if i = 0 then (0, 0, False) else (n, i, True))"
| "dtoi_loop (c # cs) n i =
     (if CHR ''0'' \<le> c \<and> c \<le> CHR ''9'' then
        (let n' = n * 10 + (of_char c - of_char CHR ''0'') in
         if n' \<ge> big then (big, i, False) else dtoi_loop cs n' (i + 1))
      else if i = 0 then (0, 0, False) else (n, i, True))"

definition dtoi :: "string \<Rightarrow> nat \<times> nat \<times> bool" where
  "dtoi s = dtoi_loop s 0 0"

text \<open>\<^verbatim>\<open>xtoi\<close>: hexadecimal to integer, with the same three results.\<close>

fun xtoi_loop :: "string \<Rightarrow> nat \<Rightarrow> nat \<Rightarrow> nat \<times> nat \<times> bool" where
  "xtoi_loop [] n i = (if i = 0 then (0, i, False) else (n, i, True))"
| "xtoi_loop (c # cs) n i =
     (if CHR ''0'' \<le> c \<and> c \<le> CHR ''9'' then
        (let n' = n * 16 + (of_char c - of_char CHR ''0'') in
         if n' \<ge> big then (0, i, False) else xtoi_loop cs n' (i + 1))
      else if CHR ''a'' \<le> c \<and> c \<le> CHR ''f'' then
        (let n' = n * 16 + (of_char c - of_char CHR ''a'') + 10 in
         if n' \<ge> big then (0, i, False) else xtoi_loop cs n' (i + 1))
      else if CHR ''A'' \<le> c \<and> c \<le> CHR ''F'' then
        (let n' = n * 16 + (of_char c - of_char CHR ''A'') + 10 in
         if n' \<ge> big then (0, i, False) else xtoi_loop cs n' (i + 1))
      else if i = 0 then (0, i, False) else (n, i, True))"

definition xtoi :: "string \<Rightarrow> nat \<times> nat \<times> bool" where
  "xtoi s = xtoi_loop s 0 0"

text \<open>
  \<^verbatim>\<open>parseIPv4\<close>: four decimal octets separated by dots, nothing before, between or
  after them. Every \<^verbatim>\<open>return nil\<close> of the library is a \<^term>\<open>None\<close> here. (The
  rejection of an octet with a leading zero is the library's since Go 1.17; no theorem
  below rests on it.)
\<close>

function parseIPv4_loop :: "nat \<Rightarrow> string \<Rightarrow> nat list \<Rightarrow> IP" where
  "parseIPv4_loop i s p =
     (if i < IPv4len then
        (if length s = 0 then None
         else if i > 0 \<and> s ! 0 \<noteq> CHR ''.'' then None
         else
           (let s1 = (if i > 0 then drop 1 s else s) in
            case dtoi s1 of (n, c, ok) \<Rightarrow>
              if \<not> ok \<or> n > 0xFF then None
              else if c > 1 \<and> s1 ! 0 = CHR ''0'' then None
              else parseIPv4_loop (i + 1) (drop c s1) (p[i := n])))
      else if length s \<noteq> 0 then None
      else Some (IPv4 (p ! 0) (p ! 1) (p ! 2) (p ! 3)))"
  by pat_completeness auto
termination
  by (relation "measure (\<lambda>(i, s, p). IPv4len - i)") auto

declare parseIPv4_loop.simps [simp del]

definition parseIPv4 :: "string \<Rightarrow> IP" where
  "parseIPv4 s = parseIPv4_loop 0 s (replicate IPv4len 0)"

text \<open>
  \<^verbatim>\<open>parseIPv6\<close>: groups of hexadecimal digits separated by colons, at most one
  \<^verbatim>\<open>::\<close> (the ellipsis, whose position in the address is kept in \<open>ellipsis\<close>, -1 while
  there is none) and possibly a trailing dotted IPv4 address. The main loop returns the
  variables it leaves behind at a \<^verbatim>\<open>break\<close> or at its end, and \<^term>\<open>None\<close> where the
  library returns nil from inside it.
\<close>

function parseIPv6_loop ::
  "nat list \<Rightarrow> int \<Rightarrow> nat \<Rightarrow> string \<Rightarrow> (nat list \<times> int \<times> nat \<times> string) option" where
  "parseIPv6_loop ip ellipsis i s =
     (if \<not> i < IPv6len then Some (ip, ellipsis, i, s)
      else
        case xtoi s of (n, c, ok) \<Rightarrow>
          if \<not> ok \<or> n > 0xFFFF then None
          else if c < length s \<and> s ! c = CHR ''.'' then
            (if ellipsis < 0 \<and> i \<noteq> IPv6len - IPv4len then None
             else if i + IPv4len > IPv6len then None
             else
               case parseIPv4 s of
                 None \<Rightarrow> None
               | Some ip4 \<Rightarrow>
                   Some (ip[i := ip4 ! 12, i + 1 := ip4 ! 13, i + 2 := ip4 ! 14,
                            i + 3 := ip4 ! 15],
                         ellipsis, i + IPv4len, ''''))
          else
            (let ip' = ip[i := n div 256 mod 256, i + 1 := n mod 256];
                 i' = i + 2;
                 s1 = drop c s
             in if length s1 = 0 then Some (ip', ellipsis, i', s1)
                else if s1 ! 0 \<noteq> CHR '':'' \<or> length s1 = 1 then None
                else
                  (let s2 = drop 1 s1 in
                   if s2 ! 0 = CHR '':'' then
                     (if ellipsis \<ge> 0 then None
                      else
                        (let s3 = drop 1 s2 in
                         if length s3 = 0 then Some (ip', int i', i', s3)
                         else parseIPv6_loop ip' (int i') i' s3))
                   else parseIPv6_loop ip' ellipsis i' s2)))"
  by pat_completeness auto
termination
  by (relation "measure (\<lambda>(ip, ellipsis, i, s). IPv6len - i)") (auto simp: IPv6len_def)

declare parseIPv6_loop.simps [simp del]

definition parseIPv6 :: "string \<Rightarrow> IP" where
  "parseIPv6 s =
     (let ip = replicate IPv6len 0;
          leading = (length s \<ge> 2 \<and> s ! 0 = CHR '':'' \<and> s ! 1 = CHR '':'');
          ellipsis = (if leading then 0 else -1);
          s1 = (if leading then drop 2 s else s)
      in if leading \<and> length s1 = 0 then Some ip
         else
           case parseIPv6_loop ip ellipsis 0 s1 of
             None \<Rightarrow> None
           | Some (ip1, ellipsis1, i, s2) \<Rightarrow>
               if length s2 \<noteq> 0 then None
               else if i < IPv6len then
                 (if ellipsis1 < 0 then None
                  else
                    (let n = IPv6len - i;
                         e = nat ellipsis1;
                         ip2 = fold (\<lambda>j a. a[j + n := a ! j]) (rev [e..<i]) ip1;
                         ip3 = fold (\<lambda>j a. a[j := 0]) (rev [e..<e + n]) ip2
                     in Some ip3))
               else if ellipsis1 \<ge> 0 then None
               else Some ip1)"

text \<open>
  \<^verbatim>\<open>ParseIP\<close>: the first dot or colon of the string decides which of the two parsers
  reads the whole string; a string with neither is no address.
\<close>

fun ParseIP_loop :: "string \<Rightarrow> string \<Rightarrow> IP" where
  "ParseIP_loop s [] = None"
| "ParseIP_loop s (c # rest) =
     (if c = CHR ''.'' then parseIPv4 s
      else if c = CHR '':'' then parseIPv6 s
      else ParseIP_loop s rest)"

definition ParseIP :: "string \<Rightarrow> IP" where
  "ParseIP s = ParseIP_loop s s"

definition isZeros :: "nat list \<Rightarrow> bool" where
  "isZeros p = list_all (\<lambda>b. b = 0) p"

text \<open>
  \<^verbatim>\<open>IP.To4\<close>: the 4-byte form of an IPv4 address, nil for anything else. A 16-byte
  address whose first twelve bytes are the IPv4-in-IPv6 prefix counts as an IPv4 address.
\<close>

definition To4 :: "IP \<Rightarrow> IP" where
  "To4 ip =
     (case ip of
        None \<Rightarrow> None
      | Some b \<Rightarrow>
          if length b = IPv4len then Some b
          else if length b = IPv6len \<and> isZeros (take 10 b) \<and> b ! 10 = 0xff \<and> b ! 11 = 0xff
          then Some (take 4 (drop 12 b))
          else None)"

section \<open>The decorator that suppresses IPv6 targets\<close>

text \<open>
  \<^verbatim>\<open>getIp4Targets\<close>: the loop appends a target to \<open>result\<close> when it parses to an
  address that has a 4-byte form. The debug log line of the other branch is left out.
\<close>

fun getIp4Targets_loop :: "string list \<Rightarrow> string list \<Rightarrow> string list" where
  "getIp4Targets_loop [] result = result"
| "getIp4Targets_loop (target # rest) result =
     (let ip = ParseIP target in
      if ip \<noteq> None \<and> To4 ip \<noteq> None then getIp4Targets_loop rest (result @ [target])
      else getIp4Targets_loop rest result)"

definition getIp4Targets :: "string list \<Rightarrow> string list" where
  "getIp4Targets targets = getIp4Targets_loop targets []"

section \<open>Endpoints, the store and the Source interface\<close>

text \<open>
  Modelled from the spec: the error taxonomy of section 7. The decorator handles an
  \<^verbatim>\<open>error\<close> only as an opaque value that is nil (\<^term>\<open>None\<close>) or not.
\<close>

datatype error =
  ConfigurationError string
| AddressUnavailableError string
| UpstreamError string

text \<open>
  Modelled from the spec: the types of package \<^verbatim>\<open>endpoint\<close>, which is not among the
  sources. \<^verbatim>\<open>TTL\<close> is the optional integer with its configured flag, \<^verbatim>\<open>Endpoint\<close>
  has the five fields of the data model. \<^verbatim>\<open>Labels\<close> is a string-to-string map, kept
  as an association list.
\<close>

record TTL =
  seconds :: int
  IsConfigured :: bool

record Endpoint =
  DNSName :: string
  Targets :: "string list"
  RecordType :: string
  RecordTTL :: TTL
  Labels :: "(string \<times> string) list"

text \<open>
  A source hands out \<^verbatim>\<open>[]*endpoint.Endpoint\<close>, a slice of pointers, and the decorator
  copies the structs they point to. The store of endpoint objects is a list, an address
  is an index into it, the nil pointer is \<^term>\<open>None\<close>. Reading through nil panics:
  \<open>deref\<close> returns \<^term>\<open>None\<close> there (and at an address beyond the store, which no Go
  pointer holds). \<open>new\<close> is Go's allocation of a variable whose
  address escapes: the object goes to the next free address.
\<close>

type_synonym ptr = "nat option"

definition deref :: "Endpoint list \<Rightarrow> ptr \<Rightarrow> Endpoint option" where
  "deref h p =
     (case p of
        None \<Rightarrow> None
      | Some a \<Rightarrow> if a < length h then Some (h ! a) else None)"

definition new :: "Endpoint list \<Rightarrow> Endpoint \<Rightarrow> ptr \<times> Endpoint list" where
  "new h v = (Some (length h), h @ [v])"

text \<open>
  The state a call runs in: the store of endpoints and whatever else the sources keep
  (caches, registered handlers), of a type the decorator knows nothing about.
\<close>

record 's world =
  heap :: "Endpoint list"
  rest :: 's

text \<open>
  Interface \<^verbatim>\<open>Source\<close>, as the decorator uses it: \<^verbatim>\<open>Endpoints(ctx)\<close> returns the pair
  of a slice and an error (or panics: \<^term>\<open>None\<close>), \<^verbatim>\<open>AddEventHandler(ctx, f)\<close> returns
  nothing. The context and the callback are opaque values.
\<close>

record ('c, 'f, 's) Source =
  Endpoints :: "'c \<Rightarrow> 's world \<Rightarrow> ((ptr list \<times> error option) \<times> 's world) option"
  AddEventHandler :: "'c \<Rightarrow> 'f \<Rightarrow> 's world \<Rightarrow> 's world"

record ('c, 'f, 's) suppressIPv6Source =
  unfiltered :: "('c, 'f, 's) Source"

text \<open>
  The loop of \<^verbatim>\<open>Endpoints\<close> over the upstream slice. \<open>results\<close> is the slice built so
  far; a kept endpoint is copied (\<^verbatim>\<open>endpointCopy := *endpoint\<close>), the copy gets the
  filtered targets, and its address is appended. The debug log line is left out.
\<close>

fun Endpoints_loop ::
  "ptr list \<Rightarrow> ptr list \<Rightarrow> Endpoint list \<Rightarrow> (ptr list \<times> Endpoint list) option" where
  "Endpoints_loop [] results h = Some (results, h)"
| "Endpoints_loop (endpoint # remaining) results h =
     (case deref h endpoint of
        None \<Rightarrow> None
      | Some e \<Rightarrow>
          (let targets = getIp4Targets (Targets e) in
           if length targets > 0 then
             (let endpointCopy = e\<lparr>Targets := targets\<rparr>;
                  (p, h') = new h endpointCopy
              in Endpoints_loop remaining (results @ [p]) h')
           else Endpoints_loop remaining results h))"

definition suppressIPv6Source_Endpoints ::
  "('c, 'f, 's) suppressIPv6Source \<Rightarrow> 'c \<Rightarrow> 's world \<Rightarrow>
     ((ptr list \<times> error option) \<times> 's world) option" where
  "suppressIPv6Source_Endpoints s ctx w =
     (case Endpoints (unfiltered s) ctx w of
        None \<Rightarrow> None
      | Some ((endpoints, err), w1) \<Rightarrow>
          if err \<noteq> None then Some ((endpoints, err), w1)
          else
            (case Endpoints_loop endpoints [] (heap w1) of
               None \<Rightarrow> None
             | Some (results, h') \<Rightarrow> Some ((results, None), w1\<lparr>heap := h'\<rparr>)))"

definition suppressIPv6Source_AddEventHandler ::
  "('c, 'f, 's) suppressIPv6Source \<Rightarrow> 'c \<Rightarrow> 'f \<Rightarrow> 's world \<Rightarrow> 's world" where
  "suppressIPv6Source_AddEventHandler s ctx f w = AddEventHandler (unfiltered s) ctx f w"

text \<open>A \<^verbatim>\<open>*suppressIPv6Source\<close> as a value of the interface: its two methods.\<close>

definition asSource :: "('c, 'f, 's) suppressIPv6Source \<Rightarrow> ('c, 'f, 's) Source" where
  "asSource s =
     \<lparr>Endpoints = suppressIPv6Source_Endpoints s,
      AddEventHandler = suppressIPv6Source_AddEventHandler s\<rparr>"

definition NewSuppressIPv6Source :: "('c, 'f, 's) Source \<Rightarrow> ('c, 'f, 's) Source" where
  "NewSuppressIPv6Source original = asSource \<lparr>unfiltered = original\<rparr>"

text \<open>
  Names for what the loop does to one endpoint: whether it is kept, the copy that is
  emitted for it, and the addresses the next \<open>n\<close> allocations return.
\<close>

definition kept :: "Endpoint \<Rightarrow> bool" where
  "kept e = (getIp4Targets (Targets e) \<noteq> [])"

definition shrink :: "Endpoint \<Rightarrow> Endpoint" where
  "shrink e = e\<lparr>Targets := getIp4Targets (Targets e)\<rparr>"

definition fresh :: "Endpoint list \<Rightarrow> nat \<Rightarrow> ptr list" where
  "fresh h n = map (\<lambda>k. Some (length h + k)) [0..<n]"

text \<open>The test of \<^verbatim>\<open>getIp4Targets\<close> on one target.\<close>

definition survives :: "string \<Rightarrow> bool" where
  "survives t = (ParseIP t \<noteq> None \<and> To4 (ParseIP t) \<noteq> None)"

text \<open>
  What a caller sees of a result: the endpoints behind the returned pointers, read in
  the store the call leaves, and the error.
\<close>

definition view ::
  "((ptr list \<times> error option) \<times> 's world) option \<Rightarrow>
     (Endpoint option list \<times> error option) option" where
  "view r =
     (case r of
        None \<Rightarrow> None
      | Some ((ps, err), w) \<Rightarrow> Some (map (deref (heap w)) ps, err))"


text \<open>
  A source to wrap in examples: it answers \<^verbatim>\<open>Endpoints\<close> with a fixed slice and error
  and touches nothing, and it keeps the list of registered handlers the design notes of
  the spec give the base producer, one entry for each call of \<^verbatim>\<open>AddEventHandler\<close>.
\<close>

definition stubSource :: "ptr list \<Rightarrow> error option \<Rightarrow> ('c, 'f, ('c \<times> 'f) list) Source" where
  "stubSource endpoints err =
     \<lparr>Endpoints = (\<lambda>ctx w. Some ((endpoints, err), w)),
      AddEventHandler = (\<lambda>ctx f w. w\<lparr>rest := rest w @ [(ctx, f)]\<rparr>)\<rparr>"

text \<open>
  Example states: a store of two endpoints, one with a mixed target list and one with
  an IPv6 target only; a store of one endpoint whose target is an IPv6 literal of an
  IPv4-mapped address; and the sources that return pointers to them.
\<close>

definition exampleEndpoint :: "string \<Rightarrow> string list \<Rightarrow> Endpoint" where
  "exampleEndpoint name targets =
     \<lparr>DNSName = name, Targets = targets, RecordType = ''A'',
      RecordTTL = \<lparr>seconds = 0, IsConfigured = False\<rparr>, Labels = []\<rparr>"

definition exampleWorld :: "(nat \<times> nat) list world" where
  "exampleWorld =
     \<lparr>heap = [exampleEndpoint ''node1'' [''1.2.3.4'', ''::1'', ''not-an-ip''],
              exampleEndpoint ''node2'' [''::1'']],
      rest = []\<rparr>"

definition exampleSource :: "(nat, nat, (nat \<times> nat) list) Source" where
  "exampleSource = stubSource [Some 0, Some 1] None"

definition failingSource :: "(nat, nat, (nat \<times> nat) list) Source" where
  "failingSource = stubSource [Some 0, Some 1] (Some (UpstreamError ''node cache''))"



section \<open>The node endpoint producer\<close>

text \<open>
  Modelled from the spec: the node producer (\<^verbatim>\<open>NewNodeSource\<close> and its \<^verbatim>\<open>Endpoints\<close>),
  of which the sources hold only the test. What follows is section 4.2 of the spec, step
  by step, on the node and address types of section 3. A nil label map is \<^term>\<open>None\<close>.
\<close>

datatype NodeAddressType = NodeExternalIP | NodeInternalIP | NodeOtherAddress string

record NodeAddress =
  Type :: NodeAddressType
  Address :: string

record Node =
  Name :: string
  NodeLabels :: "(string \<times> string) list option"
  Annotations :: "(string \<times> string) list"
  Addresses :: "NodeAddress list"

text \<open>
  Modelled from the spec: the reserved annotation keys and this controller's identity.
  The test names them (\<^verbatim>\<open>controllerAnnotationKey\<close>, \<^verbatim>\<open>controllerAnnotationValue\<close>,
  \<^verbatim>\<open>ttlAnnotationKey\<close>); their values are declared elsewhere, so they are parameters.
\<close>

record reserved =
  controllerAnnotationKey :: string
  controllerAnnotationValue :: string
  ttlAnnotationKey :: string

text \<open>
  Modelled from the spec: the producer after construction. The label selector is a
  predicate on a label map; a parsed name template is the pure function of section 4.4,
  from the node's name and namespace to the DNS name; the annotation filter stays the
  expression it was given, evaluated by the predicate evaluator \<open>eval\<close> of section 4.3,
  which is a parameter, as is the template parser \<open>parse\<close> (\<^term>\<open>None\<close>: a syntax
  error).
\<close>

record nodeSource =
  annotationFilter :: string
  fqdnTemplate :: "(string \<Rightarrow> string \<Rightarrow> string) option"
  labelSelector :: "(string \<times> string) list \<Rightarrow> bool"



text \<open>
  Modelled from the spec: steps 1 to 3 of the producer, the ownership check, the
  annotation filter and the label selector, and their conjunction.
\<close>

definition owned :: "reserved \<Rightarrow> Node \<Rightarrow> bool" where
  "owned K node =
     (case map_of (Annotations node) (controllerAnnotationKey K) of
        None \<Rightarrow> True
      | Some v \<Rightarrow> v = controllerAnnotationValue K)"

definition passesFilter ::
  "(string \<Rightarrow> (string \<times> string) list \<Rightarrow> bool) \<Rightarrow> nodeSource \<Rightarrow> Node \<Rightarrow> bool" where
  "passesFilter eval ns node =
     (if annotationFilter ns = [] then True
      else eval (annotationFilter ns) (Annotations node))"

definition passesSelector :: "nodeSource \<Rightarrow> Node \<Rightarrow> bool" where
  "passesSelector ns node =
     labelSelector ns (case NodeLabels node of None \<Rightarrow> [] | Some l \<Rightarrow> l)"

definition processed ::
  "reserved \<Rightarrow> (string \<Rightarrow> (string \<times> string) list \<Rightarrow> bool) \<Rightarrow> nodeSource \<Rightarrow> Node \<Rightarrow>
     bool" where
  "processed K eval ns node =
     (owned K node \<and> passesFilter eval ns node \<and> passesSelector ns node)"

text \<open>
  Modelled from the spec: step 5 of the producer, address selection. ExternalIP
  addresses win over InternalIP ones.
\<close>

definition addressesOfType :: "NodeAddressType \<Rightarrow> Node \<Rightarrow> string list" where
  "addressesOfType ty node = map Address (filter (\<lambda>a. Type a = ty) (Addresses node))"

definition nodeAddresses :: "Node \<Rightarrow> error + string list" where
  "nodeAddresses node =
     (if addressesOfType NodeExternalIP node \<noteq> [] then
        Inr (addressesOfType NodeExternalIP node)
      else if addressesOfType NodeInternalIP node \<noteq> [] then
        Inr (addressesOfType NodeInternalIP node)
      else Inl (AddressUnavailableError (Name node)))"

text \<open>
  Modelled from the spec: step 6 of the producer, TTL resolution. A non-negative integer
  is a non-empty string of decimal digits.
\<close>

definition parseNonNegativeInt :: "string \<Rightarrow> nat option" where
  "parseNonNegativeInt v =
     (if v \<noteq> [] \<and> list_all (\<lambda>c. CHR ''0'' \<le> c \<and> c \<le> CHR ''9'') v then
        Some (foldl (\<lambda>n c. n * 10 + (of_char c - of_char CHR ''0'')) 0 v)
      else None)"

definition unconfiguredTTL :: TTL where
  "unconfiguredTTL = \<lparr>seconds = 0, IsConfigured = False\<rparr>"

definition getTTLFromAnnotations :: "reserved \<Rightarrow> (string \<times> string) list \<Rightarrow> TTL" where
  "getTTLFromAnnotations K annotations =
     (case map_of annotations (ttlAnnotationKey K) of
        None \<Rightarrow> unconfiguredTTL
      | Some v \<Rightarrow>
          (case parseNonNegativeInt v of
             None \<Rightarrow> unconfiguredTTL
           | Some n \<Rightarrow> \<lparr>seconds = int n, IsConfigured = True\<rparr>))"

text \<open>
  Modelled from the spec: steps 1 to 7 of the producer for one node, and the loop over
  the nodes. A node gives no endpoint when it is skipped, one endpoint when it is
  processed, or the error that fails the call.
\<close>

definition nodeEndpoint ::
  "reserved \<Rightarrow> (string \<Rightarrow> (string \<times> string) list \<Rightarrow> bool) \<Rightarrow> nodeSource \<Rightarrow> Node \<Rightarrow>
     error + Endpoint option" where
  "nodeEndpoint K eval ns node =
     (if \<not> owned K node then Inr None
      else if \<not> passesFilter eval ns node then Inr None
      else if \<not> passesSelector ns node then Inr None
      else
        (let name = (case fqdnTemplate ns of None \<Rightarrow> Name node | Some t \<Rightarrow> t (Name node) [])
         in case nodeAddresses node of
              Inl e \<Rightarrow> Inl e
            | Inr targets \<Rightarrow>
                Inr (Some \<lparr>DNSName = name, Targets = targets, RecordType = ''A'',
                           RecordTTL = getTTLFromAnnotations K (Annotations node),
                           Labels = (case NodeLabels node of None \<Rightarrow> [] | Some l \<Rightarrow> l)\<rparr>)))"

fun nodeSource_loop ::
  "reserved \<Rightarrow> (string \<Rightarrow> (string \<times> string) list \<Rightarrow> bool) \<Rightarrow> nodeSource \<Rightarrow> Node list \<Rightarrow>
     Endpoint list \<Rightarrow> error + Endpoint list" where
  "nodeSource_loop K eval ns [] endpoints = Inr endpoints"
| "nodeSource_loop K eval ns (node # nodes) endpoints =
     (case nodeEndpoint K eval ns node of
        Inl e \<Rightarrow> Inl e
      | Inr None \<Rightarrow> nodeSource_loop K eval ns nodes endpoints
      | Inr (Some ep) \<Rightarrow> nodeSource_loop K eval ns nodes (endpoints @ [ep]))"

text \<open>
  Modelled from the spec: \<^verbatim>\<open>Endpoints\<close> of the node producer, on what the read of the
  external node cache gives: an error, which is passed on, or the nodes.
\<close>

definition nodeSource_Endpoints ::
  "reserved \<Rightarrow> (string \<Rightarrow> (string \<times> string) list \<Rightarrow> bool) \<Rightarrow> nodeSource \<Rightarrow>
     error + Node list \<Rightarrow> error + Endpoint list" where
  "nodeSource_Endpoints K eval ns cache =
     (case cache of
        Inl e \<Rightarrow> Inl e
      | Inr nodes \<Rightarrow> nodeSource_loop K eval ns nodes [])"

text \<open>
  The fixture of the repository's test of the node producer: a node named \<^verbatim>\<open>node1\<close>
  with the addresses and annotations of a test case, no annotation filter, no template,
  the selector \<^verbatim>\<open>labels.Everything()\<close>. The reserved keys stand for the constants the
  test names.
\<close>

definition testNode :: "NodeAddress list \<Rightarrow> (string \<times> string) list \<Rightarrow> Node" where
  "testNode addresses annotations =
     \<lparr>Name = ''node1'', NodeLabels = Some [], Annotations = annotations,
      Addresses = addresses\<rparr>"

definition testReserved :: reserved where
  "testReserved =
     \<lparr>controllerAnnotationKey = ''controller'', controllerAnnotationValue = ''dns-controller'',
      ttlAnnotationKey = ''ttl''\<rparr>"

definition testSource :: nodeSource where
  "testSource = \<lparr>annotationFilter = [], fqdnTemplate = None, labelSelector = (\<lambda>l. True)\<rparr>"

definition testEval :: "string \<Rightarrow> (string \<times> string) list \<Rightarrow> bool" where
  "testEval expr annotations = True"


section \<open>Running the parser\<close>

text \<open>Rules that let the simplifier run the parser on a string literal.\<close>

lemma list_update_Cons_numeral: "(x # xs)[numeral v := y] = x # xs[numeral v - 1 := y]"
  by (simp add: numeral_eq_Suc)

lemma replicate_numeral: "replicate (numeral v) x = x # replicate (numeral v - 1) x"
  by (simp add: numeral_eq_Suc)

lemmas run_parser =
  ParseIP_def parseIPv4_def parseIPv4_loop.simps dtoi_def xtoi_def parseIPv6_def
  parseIPv6_loop.simps To4_def isZeros_def IPv4_def v4InV6Prefix_def replicate_numeral
  list_update_Cons_numeral upt_conv_Cons IPv4len_def IPv6len_def big_def Let_def
  less_eq_char_def less_char_def

lemma ParseIP_dotted: "ParseIP ''1.2.3.4'' = Some [0, 0, 0, 0, 0, 0, 0, 0, 0, 0, 255, 255, 1, 2, 3, 4]"
  by (simp add: run_parser)

lemma ParseIP_loopback: "ParseIP ''::1'' = Some [0, 0, 0, 0, 0, 0, 0, 0, 0, 0, 0, 0, 0, 0, 0, 1]"
  by (simp add: run_parser)

lemma ParseIP_word: "ParseIP ''not-an-ip'' = None"
  by (simp add: run_parser)



lemma survives_dotted: "survives ''1.2.3.4''"
  by (simp add: survives_def ParseIP_dotted To4_def isZeros_def IPv4len_def IPv6len_def)

lemma survives_loopback: "\<not> survives ''::1''"
  by (simp add: survives_def ParseIP_loopback To4_def isZeros_def IPv4len_def IPv6len_def)

lemma survives_word: "\<not> survives ''not-an-ip''"
  by (simp add: survives_def ParseIP_word)


section \<open>Every dotted-decimal literal passes the test\<close>









section \<open>The filter and the loop of the decorator\<close>

lemma getIp4Targets_loop_filter:
  "getIp4Targets_loop ts acc = acc @ filter survives ts"
  by (induction ts arbitrary: acc) (simp_all add: Let_def survives_def)

lemma getIp4Targets_filter: "getIp4Targets ts = filter survives ts"
  by (simp add: getIp4Targets_def getIp4Targets_loop_filter)

lemma getIp4Targets_idem: "getIp4Targets (getIp4Targets ts) = getIp4Targets ts"
  by (simp add: getIp4Targets_filter)

lemma deref_append: "deref h p = Some e \<Longrightarrow> deref (h @ ks) p = Some e"
  by (auto simp: deref_def nth_append split: option.splits if_splits)

lemma map_deref_append:
  "map (deref h) ps = map Some es \<Longrightarrow> map (deref (h @ ks)) ps = map Some es"
proof (induction ps arbitrary: es)
  case Nil then show ?case by simp
next
  case (Cons p ps)
  then obtain e es' where es: "es = e # es'" by (cases es) auto
  with Cons show ?case by (simp add: deref_append)
qed

lemma fresh_0: "fresh h 0 = []"
  by (simp add: fresh_def)

lemma fresh_Suc: "fresh h (Suc n) = Some (length h) # fresh (h @ [x]) n"
proof -
  have "[0..<Suc n] = 0 # map Suc [0..<n]"
    by (simp only: map_Suc_upt upt_conv_Cons [of 0 "Suc n"] zero_less_Suc)
  then show ?thesis by (simp add: fresh_def comp_def)
qed

lemma deref_fresh: "map (deref (h @ ks)) (fresh h (length ks)) = map Some ks"
proof -
  have "map (deref (h @ ks)) (fresh h (length ks)) = map (\<lambda>k. Some (ks ! k)) [0..<length ks]"
    by (simp add: fresh_def deref_def comp_def)
  also have "\<dots> = map Some (map ((!) ks) [0..<length ks])"
    by (simp add: comp_def)
  finally show ?thesis by (simp only: map_nth)
qed

lemma fresh_not_valid: "p \<in> set (fresh h n) \<Longrightarrow> deref h p = None"
  by (auto simp: fresh_def deref_def)

lemma Endpoints_loop_valid:
  "map (deref h) ps = map Some es \<Longrightarrow>
   Endpoints_loop ps results h =
     Some (results @ fresh h (length (filter kept es)), h @ map shrink (filter kept es))"
proof (induction ps arbitrary: es results h)
  case Nil then show ?case by (simp add: fresh_0)
next
  case (Cons p ps)
  then obtain e es' where es: "es = e # es'" and p: "deref h p = Some e"
    and rest: "map (deref h) ps = map Some es'" by (cases es) auto
  show ?case
  proof (cases "kept e")
    case True
    have "map (deref (h @ [shrink e])) ps = map Some es'"
      using rest by (rule map_deref_append)
    from Cons.IH[OF this] True p show ?thesis
      by (simp add: es kept_def shrink_def new_def Let_def
          fresh_Suc [where x = "e\<lparr>Targets := getIp4Targets (Targets e)\<rparr>"])
  next
    case False
    from Cons.IH[OF rest] False p show ?thesis
      by (simp add: es kept_def Let_def)
  qed
qed

lemma Endpoints_error:
  "Endpoints original ctx w = Some ((endpoints, Some e), w1) \<Longrightarrow>
   Endpoints (NewSuppressIPv6Source original) ctx w = Some ((endpoints, Some e), w1)"
  by (simp add: NewSuppressIPv6Source_def asSource_def suppressIPv6Source_Endpoints_def)

lemma Endpoints_returns:
  assumes "Endpoints original ctx w = Some ((endpoints, None), w1)"
    and "map (deref (heap w1)) endpoints = map Some es"
  shows "Endpoints (NewSuppressIPv6Source original) ctx w =
           Some ((fresh (heap w1) (length (filter kept es)), None),
                 w1\<lparr>heap := heap w1 @ map shrink (filter kept es)\<rparr>)"
  using assms(1) Endpoints_loop_valid [OF assms(2), of "[]"]
  by (simp add: NewSuppressIPv6Source_def asSource_def suppressIPv6Source_Endpoints_def)

lemma deref_fresh_kept:
  "map (deref (h @ map shrink (filter kept es))) (fresh h (length (filter kept es))) =
     map Some (map shrink (filter kept es))"
  using deref_fresh [of h "map shrink (filter kept es)"] by simp



lemma Endpoints_summary:
  assumes "Endpoints original ctx w = Some ((endpoints, None), w1)"
    and "map (deref (heap w1)) endpoints = map Some es"
  obtains results w2 where
    "Endpoints (NewSuppressIPv6Source original) ctx w = Some ((results, None), w2)"
    "map (deref (heap w2)) results = map Some (map shrink (filter kept es))"
    "results = fresh (heap w1) (length (filter kept es))"
    "heap w2 = heap w1 @ map shrink (filter kept es)"
    "rest w2 = rest w1"
proof -
  let ?w2 = "w1\<lparr>heap := heap w1 @ map shrink (filter kept es)\<rparr>"
  have "map (deref (heap ?w2)) (fresh (heap w1) (length (filter kept es))) =
          map Some (map shrink (filter kept es))"
    using deref_fresh_kept [of "heap w1" es] by simp
  with Endpoints_returns [OF assms] that [of "fresh (heap w1) (length (filter kept es))" ?w2]
  show thesis by simp
qed

lemma fresh_disjoint:
  assumes "map (deref h) ps = map Some es"
  shows "set (fresh h n) \<inter> set ps = {}"
proof -
  have "deref h p \<noteq> None" if "p \<in> set ps" for p
  proof -
    from that have "deref h p \<in> set (map (deref h) ps)" by simp
    with assms show ?thesis by auto
  qed
  then show ?thesis using fresh_not_valid by blast
qed

lemma AddEventHandler_forward:
  "AddEventHandler (NewSuppressIPv6Source original) = AddEventHandler original"
  by (rule ext)+
    (simp add: NewSuppressIPv6Source_def asSource_def suppressIPv6Source_AddEventHandler_def)

lemma AddEventHandler_chain:
  "AddEventHandler ((NewSuppressIPv6Source ^^ n) original) = AddEventHandler original"
  by (induction n) (simp_all add: AddEventHandler_forward)

lemma Endpoints_loop_result:
  "Endpoints_loop ps results h = Some (out, h') \<Longrightarrow>
   \<exists>ks. h' = h @ ks \<and> out = results @ fresh h (length ks) \<and>
        (\<forall>k \<in> set ks. kept k \<and> shrink k = k)"
proof (induction ps arbitrary: results h)
  case Nil
  then show ?case by (simp add: fresh_0)
next
  case (Cons p ps)
  from Cons.prems obtain e where p: "deref h p = Some e"
    by (cases "deref h p") simp_all
  show ?case
  proof (cases "kept e")
    case True
    let ?c = "e\<lparr>Targets := getIp4Targets (Targets e)\<rparr>"
    from Cons.prems p True
    have "Endpoints_loop ps (results @ [Some (length h)]) (h @ [?c]) = Some (out, h')"
      by (simp add: kept_def new_def Let_def)
    from Cons.IH [OF this] obtain ks where
      ks: "h' = (h @ [?c]) @ ks" "out = (results @ [Some (length h)]) @ fresh (h @ [?c]) (length ks)"
        "\<forall>k \<in> set ks. kept k \<and> shrink k = k"
      by blast
    have c: "kept ?c \<and> shrink ?c = ?c"
      using True by (simp add: kept_def shrink_def getIp4Targets_idem)
    have "h' = h @ (?c # ks)" using ks(1) by simp
    moreover have "out = results @ fresh h (length (?c # ks))"
      using ks(2) by (simp add: fresh_Suc [where x = ?c])
    moreover have "\<forall>k \<in> set (?c # ks). kept k \<and> shrink k = k"
      using c ks(3) by simp
    ultimately show ?thesis by blast
  next
    case False
    from Cons.prems p False have "Endpoints_loop ps results h = Some (out, h')"
      by (simp add: kept_def Let_def)
    from Cons.IH [OF this] show ?thesis .
  qed
qed

lemma filter_all_kept: "\<forall>k \<in> set ks. kept k \<and> shrink k = k \<Longrightarrow> map shrink (filter kept ks) = ks"
  by (induction ks) simp_all

lemma Endpoints_unfold:
  "Endpoints (NewSuppressIPv6Source original) ctx w =
     suppressIPv6Source_Endpoints \<lparr>unfiltered = original\<rparr> ctx w"
  by (simp add: NewSuppressIPv6Source_def asSource_def)

lemma Endpoints_twice:
  "view (Endpoints (NewSuppressIPv6Source (NewSuppressIPv6Source original)) ctx w) =
   view (Endpoints (NewSuppressIPv6Source original) ctx w)"
proof (cases "Endpoints (NewSuppressIPv6Source original) ctx w")
  case None
  then show ?thesis
    by (simp add: Endpoints_unfold [of "NewSuppressIPv6Source original"]
        suppressIPv6Source_Endpoints_def)
next
  case (Some r)
  obtain ps err w1 where r: "r = ((ps, err), w1)" by (cases r) auto
  show ?thesis
  proof (cases err)
    case (Some e)
    with \<open>Endpoints (NewSuppressIPv6Source original) ctx w = Some r\<close> r
    have "Endpoints (NewSuppressIPv6Source original) ctx w = Some ((ps, Some e), w1)" by simp
    from Endpoints_error [OF this] this show ?thesis by simp
  next
    case None
    with \<open>Endpoints (NewSuppressIPv6Source original) ctx w = Some r\<close> r
    have once: "Endpoints (NewSuppressIPv6Source original) ctx w = Some ((ps, None), w1)" by simp
    then obtain eps w0 h' where
      loop: "Endpoints_loop eps [] (heap w0) = Some (ps, h')" and w1: "w1 = w0\<lparr>heap := h'\<rparr>"
      by (auto simp: Endpoints_unfold suppressIPv6Source_Endpoints_def
          split: option.splits if_splits)
    from Endpoints_loop_result [OF loop] obtain ks where
      ks: "h' = heap w0 @ ks" "ps = fresh (heap w0) (length ks)"
        "\<forall>k \<in> set ks. kept k \<and> shrink k = k"
      by auto
    have vals: "map (deref (heap w1)) ps = map Some ks"
      using ks(1,2) w1 by (simp add: deref_fresh)
    from Endpoints_summary [OF once vals] obtain results w2 where
      twice: "Endpoints (NewSuppressIPv6Source (NewSuppressIPv6Source original)) ctx w =
                Some ((results, None), w2)"
      and v2: "map (deref (heap w2)) results = map Some (map shrink (filter kept ks))"
      by blast
    from v2 ks(3) have "map (deref (heap w2)) results = map Some ks"
      by (simp add: filter_all_kept)
    with vals once twice show ?thesis by (simp add: view_def)
  qed
qed

section \<open>The examples, evaluated\<close>

lemma getIp4Targets_mixed: "getIp4Targets [''1.2.3.4'', ''::1'', ''not-an-ip''] = [''1.2.3.4'']"
  by (simp add: getIp4Targets_filter survives_dotted survives_loopback survives_word)

lemma getIp4Targets_loopback: "getIp4Targets [''::1''] = []"
  by (simp add: getIp4Targets_filter survives_loopback)


lemma exampleSource_Endpoints:
  "Endpoints exampleSource 0 exampleWorld = Some (([Some 0, Some 1], None), exampleWorld)"
  by (simp add: exampleSource_def stubSource_def)

lemma exampleWorld_deref:
  "map (deref (heap exampleWorld)) [Some 0, Some 1] =
     map Some [exampleEndpoint ''node1'' [''1.2.3.4'', ''::1'', ''not-an-ip''],
               exampleEndpoint ''node2'' [''::1'']]"
  by (simp add: exampleWorld_def deref_def)

lemma kept_node1: "kept (exampleEndpoint ''node1'' [''1.2.3.4'', ''::1'', ''not-an-ip''])"
  by (simp add: kept_def exampleEndpoint_def getIp4Targets_mixed)

lemma kept_node2: "\<not> kept (exampleEndpoint ''node2'' [''::1''])"
  by (simp add: kept_def exampleEndpoint_def getIp4Targets_loopback)

lemma shrink_node1:
  "shrink (exampleEndpoint ''node1'' [''1.2.3.4'', ''::1'', ''not-an-ip'']) =
     exampleEndpoint ''node1'' [''1.2.3.4'']"
  by (simp add: shrink_def exampleEndpoint_def getIp4Targets_mixed)

lemma example_filter_kept:
  "filter kept [exampleEndpoint ''node1'' [''1.2.3.4'', ''::1'', ''not-an-ip''],
                exampleEndpoint ''node2'' [''::1'']] =
     [exampleEndpoint ''node1'' [''1.2.3.4'', ''::1'', ''not-an-ip'']]"
  by (simp add: kept_node1 kept_node2)

lemma failingSource_Endpoints:
  "Endpoints failingSource 0 exampleWorld =
     Some (([Some 0, Some 1], Some (UpstreamError ''node cache'')), exampleWorld)"
  by (simp add: failingSource_def stubSource_def)





lemma example_once:
  "Endpoints (NewSuppressIPv6Source exampleSource) 0 exampleWorld =
     Some (([Some 2], None),
           exampleWorld\<lparr>heap := heap exampleWorld @ [exampleEndpoint ''node1'' [''1.2.3.4'']]\<rparr>)"
proof -
  have "fresh (heap exampleWorld) (Suc 0) = [Some 2]"
    by (simp add: fresh_def exampleWorld_def)
  with Endpoints_returns [OF exampleSource_Endpoints exampleWorld_deref] show ?thesis
    by (simp add: kept_node1 kept_node2 shrink_node1)
qed

lemma example_view:
  "view (Endpoints (NewSuppressIPv6Source exampleSource) 0 exampleWorld) =
     Some ([Some (exampleEndpoint ''node1'' [''1.2.3.4''])], None)"
  by (subst example_once) (simp add: view_def deref_def exampleWorld_def nth_append)

section \<open>The suppression decorator: what it returns\<close>

text \<open>
  In the theorems below \<open>original\<close> is the wrapped source, \<open>endpoints\<close> the slice it
  returns in the state \<open>w1\<close>, and \<open>es\<close> the endpoints behind those pointers: the
  second premise says that no pointer of the slice is nil. \<open>outs\<close> are the endpoints
  behind the pointers the decorator returns, read in the state it leaves.
\<close>




text \<open>
  Claim C3. When the wrapped source returns without error, the decorator returns one
  endpoint for each endpoint that keeps a target after the filter, in their order, and
  none for an endpoint that keeps no target; no endpoint it returns has an empty target
  list.
\<close>

theorem C3_empty_endpoints_omitted:
  assumes "Endpoints original ctx w = Some ((endpoints, None), w1)"
    and "map (deref (heap w1)) endpoints = map Some es"
  shows "\<exists>results w2 outs.
           Endpoints (NewSuppressIPv6Source original) ctx w = Some ((results, None), w2) \<and>
           map (deref (heap w2)) results = map Some outs \<and>
           outs = map shrink (filter (\<lambda>e. getIp4Targets (Targets e) \<noteq> []) es) \<and>
           (\<forall>out \<in> set outs. Targets out \<noteq> []) \<and>
           (\<forall>e \<in> set es. getIp4Targets (Targets e) = [] \<longrightarrow> e \<notin> set outs)"
proof -
  from assms obtain results w2 where
    r: "Endpoints (NewSuppressIPv6Source original) ctx w = Some ((results, None), w2)"
    and v: "map (deref (heap w2)) results = map Some (map shrink (filter kept es))"
    by (rule Endpoints_summary)
  have "kept = (\<lambda>e. getIp4Targets (Targets e) \<noteq> [])"
    by (rule ext) (simp add: kept_def)
  then have k: "map shrink (filter kept es) =
             map shrink (filter (\<lambda>e. getIp4Targets (Targets e) \<noteq> []) es)"
    by (rule arg_cong)
  have n: "\<forall>out \<in> set (map shrink (filter kept es)). Targets out \<noteq> []"
    by (auto simp: shrink_def kept_def)
  have o: "\<forall>e \<in> set es. getIp4Targets (Targets e) = [] \<longrightarrow>
             e \<notin> set (map shrink (filter kept es))"
    by (auto simp: shrink_def kept_def getIp4Targets_idem)
  from r v n o show ?thesis unfolding k by blast
qed

theorem C3_empty_endpoints_omitted_witness:
  "Endpoints exampleSource 0 exampleWorld = Some (([Some 0, Some 1], None), exampleWorld) \<and>
   map (deref (heap exampleWorld)) [Some 0, Some 1] =
     map Some [exampleEndpoint ''node1'' [''1.2.3.4'', ''::1'', ''not-an-ip''],
               exampleEndpoint ''node2'' [''::1'']] \<and>
   (\<exists>results w2.
      Endpoints (NewSuppressIPv6Source exampleSource) 0 exampleWorld =
        Some ((results, None), w2) \<and>
      map (deref (heap w2)) results = [Some (exampleEndpoint ''node1'' [''1.2.3.4''])])"
proof -
  from C3_empty_endpoints_omitted [OF exampleSource_Endpoints exampleWorld_deref]
  have "\<exists>results w2.
      Endpoints (NewSuppressIPv6Source exampleSource) 0 exampleWorld =
        Some ((results, None), w2) \<and>
      map (deref (heap w2)) results = [Some (exampleEndpoint ''node1'' [''1.2.3.4''])]"
    by (auto simp: exampleEndpoint_def shrink_def getIp4Targets_mixed getIp4Targets_loopback)
  with exampleSource_Endpoints exampleWorld_deref show ?thesis by (intro conjI)
qed

text \<open>
  Claim C4. When the wrapped source returns an error, the decorator returns what the
  wrapped source returned: the same error, the same slice, and the state as the wrapped
  source left it, so nothing was filtered or copied.
\<close>

theorem C4_error_unchanged:
  assumes "Endpoints original ctx w = Some ((endpoints, Some e), w1)"
  shows "Endpoints (NewSuppressIPv6Source original) ctx w = Some ((endpoints, Some e), w1)"
  using assms by (rule Endpoints_error)

theorem C4_error_unchanged_witness:
  "Endpoints failingSource 0 exampleWorld =
     Some (([Some 0, Some 1], Some (UpstreamError ''node cache'')), exampleWorld) \<and>
   Endpoints (NewSuppressIPv6Source failingSource) 0 exampleWorld =
     Some (([Some 0, Some 1], Some (UpstreamError ''node cache'')), exampleWorld)"
  using failingSource_Endpoints C4_error_unchanged [OF failingSource_Endpoints]
  by (intro conjI)

text \<open>
  Claim C5. Every endpoint the decorator emits has the DNSName, RecordType, RecordTTL
  and Labels of the endpoint it was made from. The endpoints of the wrapped source are
  left as they were: the store the wrapped source left is a prefix of the store the
  decorator leaves, so the pointers of the wrapped source still lead to the same
  endpoints, and no pointer the decorator returns is one of them.
\<close>

theorem C5_copy_frame:
  assumes "Endpoints original ctx w = Some ((endpoints, None), w1)"
    and "map (deref (heap w1)) endpoints = map Some es"
  shows "\<exists>results w2 outs.
           Endpoints (NewSuppressIPv6Source original) ctx w = Some ((results, None), w2) \<and>
           map (deref (heap w2)) results = map Some outs \<and>
           list_all2 (\<lambda>out e. DNSName out = DNSName e \<and> RecordType out = RecordType e \<and>
                        RecordTTL out = RecordTTL e \<and> Labels out = Labels e)
             outs (filter kept es) \<and>
           map (deref (heap w2)) endpoints = map Some es \<and>
           take (length (heap w1)) (heap w2) = heap w1 \<and>
           set results \<inter> set endpoints = {} \<and>
           rest w2 = rest w1"
proof -
  from assms obtain results w2 where
    r: "Endpoints (NewSuppressIPv6Source original) ctx w = Some ((results, None), w2)"
    and v: "map (deref (heap w2)) results = map Some (map shrink (filter kept es))"
    and f: "results = fresh (heap w1) (length (filter kept es))"
    and h: "heap w2 = heap w1 @ map shrink (filter kept es)"
    and o: "rest w2 = rest w1"
    by (rule Endpoints_summary)
  have a: "list_all2 (\<lambda>out e. DNSName out = DNSName e \<and> RecordType out = RecordType e \<and>
                        RecordTTL out = RecordTTL e \<and> Labels out = Labels e)
             (map shrink (filter kept es)) (filter kept es)"
    by (simp add: list_all2_map1 list_all2_same shrink_def)
  have b: "map (deref (heap w2)) endpoints = map Some es"
    unfolding h using assms(2) by (rule map_deref_append)
  have c: "take (length (heap w1)) (heap w2) = heap w1"
    unfolding h by simp
  have d: "set results \<inter> set endpoints = {}"
    unfolding f using assms(2) by (rule fresh_disjoint)
  from r v a b c d o show ?thesis by blast
qed

theorem C5_copy_frame_witness:
  "Endpoints exampleSource 0 exampleWorld = Some (([Some 0, Some 1], None), exampleWorld) \<and>
   map (deref (heap exampleWorld)) [Some 0, Some 1] =
     map Some [exampleEndpoint ''node1'' [''1.2.3.4'', ''::1'', ''not-an-ip''],
               exampleEndpoint ''node2'' [''::1'']] \<and>
   (\<exists>results w2 out.
      Endpoints (NewSuppressIPv6Source exampleSource) 0 exampleWorld =
        Some ((results, None), w2) \<and>
      map (deref (heap w2)) results = [Some out] \<and>
      DNSName out = ''node1'' \<and> RecordType out = ''A'' \<and>
      RecordTTL out = \<lparr>seconds = 0, IsConfigured = False\<rparr> \<and> Labels out = [] \<and>
      map (deref (heap w2)) [Some 0, Some 1] =
        map Some [exampleEndpoint ''node1'' [''1.2.3.4'', ''::1'', ''not-an-ip''],
                  exampleEndpoint ''node2'' [''::1'']] \<and>
      take 2 (heap w2) = heap exampleWorld \<and>
      set results \<inter> {Some 0, Some 1} = {})"
proof -
  from C5_copy_frame [OF exampleSource_Endpoints exampleWorld_deref]
  obtain results w2 outs where
    r: "Endpoints (NewSuppressIPv6Source exampleSource) 0 exampleWorld =
          Some ((results, None), w2)"
    and v: "map (deref (heap w2)) results = map Some outs"
    and a: "list_all2 (\<lambda>out e. DNSName out = DNSName e \<and> RecordType out = RecordType e \<and>
                        RecordTTL out = RecordTTL e \<and> Labels out = Labels e)
             outs [exampleEndpoint ''node1'' [''1.2.3.4'', ''::1'', ''not-an-ip'']]"
    and b: "map (deref (heap w2)) [Some 0, Some 1] =
        map Some [exampleEndpoint ''node1'' [''1.2.3.4'', ''::1'', ''not-an-ip''],
                  exampleEndpoint ''node2'' [''::1'']]"
    and c: "take (length (heap exampleWorld)) (heap w2) = heap exampleWorld"
    and d: "set results \<inter> set [Some 0, Some 1] = {}"
    unfolding example_filter_kept by blast
  from a obtain out where out: "outs = [out]" "DNSName out = ''node1''"
    "RecordType out = ''A''" "RecordTTL out = \<lparr>seconds = 0, IsConfigured = False\<rparr>"
    "Labels out = []"
    by (auto simp: list_all2_Cons2 exampleEndpoint_def)
  have l: "length (heap exampleWorld) = 2" by (simp add: exampleWorld_def)
  from r v b c d out l have "\<exists>results w2 out.
      Endpoints (NewSuppressIPv6Source exampleSource) 0 exampleWorld =
        Some ((results, None), w2) \<and>
      map (deref (heap w2)) results = [Some out] \<and>
      DNSName out = ''node1'' \<and> RecordType out = ''A'' \<and>
      RecordTTL out = \<lparr>seconds = 0, IsConfigured = False\<rparr> \<and> Labels out = [] \<and>
      map (deref (heap w2)) [Some 0, Some 1] =
        map Some [exampleEndpoint ''node1'' [''1.2.3.4'', ''::1'', ''not-an-ip''],
                  exampleEndpoint ''node2'' [''::1'']] \<and>
      take 2 (heap w2) = heap exampleWorld \<and>
      set results \<inter> {Some 0, Some 1} = {}"
    by auto
  with exampleSource_Endpoints exampleWorld_deref show ?thesis by (intro conjI)
qed

text \<open>
  Claim C6. \<^verbatim>\<open>AddEventHandler\<close> of the decorator is \<^verbatim>\<open>AddEventHandler\<close> of the wrapped
  source, with the same context and callback: its effect on the state is that of the
  one call. So it is for a chain of \<open>n\<close> decorators around a source, and around a source
  that records its registrations the list of registrations grows by exactly the one
  entry.
\<close>

theorem C6_AddEventHandler_forwarded:
  "AddEventHandler (NewSuppressIPv6Source original) ctx f w =
     AddEventHandler original ctx f w \<and>
   AddEventHandler ((NewSuppressIPv6Source ^^ n) original) ctx f w =
     AddEventHandler original ctx f w \<and>
   rest (AddEventHandler ((NewSuppressIPv6Source ^^ n) (stubSource endpoints err)) ctx f v) =
     rest v @ [(ctx, f)]"
  by (simp add: AddEventHandler_forward AddEventHandler_chain stubSource_def)

theorem C6_AddEventHandler_forwarded_witness:
  "rest (AddEventHandler ((NewSuppressIPv6Source ^^ 3) exampleSource) 7 9 exampleWorld) =
     [(7, 9)]"
  using C6_AddEventHandler_forwarded
    [where n = 3 and endpoints = "[Some 0, Some 1]" and err = None and ctx = 7 and f = 9
       and v = exampleWorld, THEN conjunct2, THEN conjunct2]
  unfolding exampleSource_def by (simp add: exampleWorld_def)

text \<open>
  Claim C7. Whatever the wrapped source returns, with an error or without, the
  endpoints the decorator returns are made from a subsequence \<open>sub\<close> of the endpoints
  the wrapped source returned, one from each and in their order, and each has a
  subsequence of the targets, and the other fields, of the endpoint it was made from.
\<close>

theorem C7_no_new_endpoints:
  assumes "Endpoints original ctx w = Some ((endpoints, err), w1)"
    and "map (deref (heap w1)) endpoints = map Some es"
  shows "\<exists>results w2 outs sub.
           Endpoints (NewSuppressIPv6Source original) ctx w = Some ((results, err), w2) \<and>
           map (deref (heap w2)) results = map Some outs \<and>
           subseq sub es \<and>
           list_all2 (\<lambda>out e. subseq (Targets out) (Targets e) \<and> DNSName out = DNSName e \<and>
                        RecordType out = RecordType e \<and> RecordTTL out = RecordTTL e \<and>
                        Labels out = Labels e)
             outs sub"
proof (cases err)
  case None
  with assms obtain results w2 where
    r: "Endpoints (NewSuppressIPv6Source original) ctx w = Some ((results, err), w2)"
    and v: "map (deref (heap w2)) results = map Some (map shrink (filter kept es))"
    by (auto elim: Endpoints_summary)
  have s: "subseq (filter kept es) es" by simp
  have a: "list_all2 (\<lambda>out e. subseq (Targets out) (Targets e) \<and> DNSName out = DNSName e \<and>
                        RecordType out = RecordType e \<and> RecordTTL out = RecordTTL e \<and>
                        Labels out = Labels e)
             (map shrink (filter kept es)) (filter kept es)"
    by (simp add: list_all2_map1 list_all2_same shrink_def getIp4Targets_filter)
  from r v s a show ?thesis by blast
next
  case (Some e)
  with assms(1) have
    r: "Endpoints (NewSuppressIPv6Source original) ctx w = Some ((endpoints, err), w1)"
    by (simp add: Endpoints_error)
  have a: "list_all2 (\<lambda>out e. subseq (Targets out) (Targets e) \<and> DNSName out = DNSName e \<and>
                        RecordType out = RecordType e \<and> RecordTTL out = RecordTTL e \<and>
                        Labels out = Labels e) es es"
    by (simp add: list_all2_same)
  have s: "subseq es es" by simp
  from r assms(2) s a show ?thesis by blast
qed

theorem C7_no_new_endpoints_witness:
  "Endpoints exampleSource 0 exampleWorld = Some (([Some 0, Some 1], None), exampleWorld) \<and>
   map (deref (heap exampleWorld)) [Some 0, Some 1] =
     map Some [exampleEndpoint ''node1'' [''1.2.3.4'', ''::1'', ''not-an-ip''],
               exampleEndpoint ''node2'' [''::1'']] \<and>
   (\<exists>results w2 outs sub.
      Endpoints (NewSuppressIPv6Source exampleSource) 0 exampleWorld =
        Some ((results, None), w2) \<and>
      map (deref (heap w2)) results = map Some outs \<and>
      subseq sub [exampleEndpoint ''node1'' [''1.2.3.4'', ''::1'', ''not-an-ip''],
                  exampleEndpoint ''node2'' [''::1'']] \<and>
      list_all2 (\<lambda>out e. subseq (Targets out) (Targets e) \<and> DNSName out = DNSName e \<and>
                   RecordType out = RecordType e \<and> RecordTTL out = RecordTTL e \<and>
                   Labels out = Labels e)
        outs sub)"
  using exampleSource_Endpoints exampleWorld_deref
    C7_no_new_endpoints [OF exampleSource_Endpoints exampleWorld_deref]
  by (intro conjI)

text \<open>
  Claim C10. A source wrapped twice answers \<^verbatim>\<open>Endpoints\<close> as the source wrapped once
  does: the same endpoints, in the same order, behind the pointers returned, and the
  same error; and if one panics so does the other. The filter leaves a filtered target
  list as it is.
\<close>

theorem C10_idempotent:
  "view (Endpoints (NewSuppressIPv6Source (NewSuppressIPv6Source original)) ctx w) =
     view (Endpoints (NewSuppressIPv6Source original) ctx w) \<and>
   getIp4Targets (getIp4Targets targets) = getIp4Targets targets"
  by (simp add: Endpoints_twice getIp4Targets_idem)

theorem C10_idempotent_witness:
  "view (Endpoints (NewSuppressIPv6Source (NewSuppressIPv6Source exampleSource)) 0
       exampleWorld) =
     Some ([Some (exampleEndpoint ''node1'' [''1.2.3.4''])], None)"
proof -
  from C10_idempotent [of exampleSource 0 exampleWorld] example_view show ?thesis
    by simp
qed

section \<open>The node endpoint producer: address selection, TTL, construction\<close>

lemma nodeAddresses_external:
  "\<exists>a \<in> set (Addresses node). Type a = NodeExternalIP \<Longrightarrow>
   nodeAddresses node =
     Inr (map Address (filter (\<lambda>a. Type a = NodeExternalIP) (Addresses node)))"
  by (auto simp: nodeAddresses_def addressesOfType_def filter_empty_conv)

lemma nodeAddresses_internal:
  "\<not> (\<exists>a \<in> set (Addresses node). Type a = NodeExternalIP) \<Longrightarrow>
   \<exists>a \<in> set (Addresses node). Type a = NodeInternalIP \<Longrightarrow>
   nodeAddresses node =
     Inr (map Address (filter (\<lambda>a. Type a = NodeInternalIP) (Addresses node)))"
  by (auto simp: nodeAddresses_def addressesOfType_def filter_empty_conv)

lemma nodeAddresses_neither:
  "\<not> (\<exists>a \<in> set (Addresses node). Type a = NodeExternalIP) \<Longrightarrow>
   \<not> (\<exists>a \<in> set (Addresses node). Type a = NodeInternalIP) \<Longrightarrow>
   nodeAddresses node = Inl (AddressUnavailableError (Name node))"
  by (auto simp: nodeAddresses_def addressesOfType_def filter_empty_conv)

lemma nodeEndpoint_processed:
  "processed K eval ns node \<Longrightarrow> nodeAddresses node = Inr targets \<Longrightarrow>
   \<exists>ep. nodeEndpoint K eval ns node = Inr (Some ep) \<and> Targets ep = targets \<and>
        RecordTTL ep = getTTLFromAnnotations K (Annotations node)"
  by (simp add: nodeEndpoint_def processed_def Let_def)

lemma nodeEndpoint_fails:
  "processed K eval ns node \<Longrightarrow> nodeAddresses node = Inl e \<Longrightarrow>
   nodeEndpoint K eval ns node = Inl e"
  by (simp add: nodeEndpoint_def processed_def Let_def)


lemma nodeSource_loop_fails:
  "node \<in> set nodes \<Longrightarrow> nodeEndpoint K eval ns node = Inl e \<Longrightarrow>
   \<exists>e'. nodeSource_loop K eval ns nodes acc = Inl e'"
proof (induction nodes arbitrary: acc)
  case Nil
  then show ?case by simp
next
  case (Cons n nodes)
  show ?case
  proof (cases "nodeEndpoint K eval ns n")
    case (Inl e')
    then show ?thesis by simp
  next
    case (Inr r)
    with Cons.prems have "node \<in> set nodes" by auto
    from Cons.IH [OF this Cons.prems(2)] Inr show ?thesis
      by (cases r) simp_all
  qed
qed


lemma getTTL_absent:
  "map_of annotations (ttlAnnotationKey K) = None \<Longrightarrow>
   getTTLFromAnnotations K annotations = unconfiguredTTL"
  by (simp add: getTTLFromAnnotations_def)

lemma getTTL_invalid:
  "map_of annotations (ttlAnnotationKey K) = Some v \<Longrightarrow> parseNonNegativeInt v = None \<Longrightarrow>
   getTTLFromAnnotations K annotations = unconfiguredTTL"
  by (simp add: getTTLFromAnnotations_def)

lemma parseNonNegativeInt_10: "parseNonNegativeInt ''10'' = Some 10"
  by (simp add: parseNonNegativeInt_def less_eq_char_def)

lemma parseNonNegativeInt_foo: "parseNonNegativeInt ''foo'' = None"
  by (simp add: parseNonNegativeInt_def less_eq_char_def)

lemma getTTL_10:
  "map_of annotations (ttlAnnotationKey K) = Some ''10'' \<Longrightarrow>
   getTTLFromAnnotations K annotations = \<lparr>seconds = 10, IsConfigured = True\<rparr>"
  by (simp add: getTTLFromAnnotations_def parseNonNegativeInt_10)



lemma testNode_processed: "processed testReserved testEval testSource (testNode addresses [])"
  "processed testReserved testEval testSource (testNode addresses [(''ttl'', v)])"
  by (simp_all add: processed_def owned_def passesFilter_def passesSelector_def testNode_def
      testReserved_def testSource_def)

text \<open>
  Claim C2, on the producer as the spec describes it. A node that passes the ownership
  check, the annotation filter and the label selector gets as targets its ExternalIP
  addresses, in the order of its address list, if it has one; otherwise its InternalIP
  addresses, if it has one; and if it has neither, \<^verbatim>\<open>Endpoints\<close> on any node list that
  holds the node returns an error and no endpoints.
\<close>

theorem C2_address_selection:
  "(processed K eval ns node \<and> (\<exists>a \<in> set (Addresses node). Type a = NodeExternalIP) \<longrightarrow>
      (\<exists>ep. nodeEndpoint K eval ns node = Inr (Some ep) \<and>
            Targets ep =
              map Address (filter (\<lambda>a. Type a = NodeExternalIP) (Addresses node)))) \<and>
   (processed K eval ns node \<and> \<not> (\<exists>a \<in> set (Addresses node). Type a = NodeExternalIP) \<and>
      (\<exists>a \<in> set (Addresses node). Type a = NodeInternalIP) \<longrightarrow>
      (\<exists>ep. nodeEndpoint K eval ns node = Inr (Some ep) \<and>
            Targets ep =
              map Address (filter (\<lambda>a. Type a = NodeInternalIP) (Addresses node)))) \<and>
   (node \<in> set nodes \<and> processed K eval ns node \<and>
      \<not> (\<exists>a \<in> set (Addresses node). Type a = NodeExternalIP) \<and>
      \<not> (\<exists>a \<in> set (Addresses node). Type a = NodeInternalIP) \<longrightarrow>
      (\<exists>e. nodeSource_Endpoints K eval ns (Inr nodes) = Inl e))"
proof (intro conjI impI)
  assume "processed K eval ns node \<and> (\<exists>a \<in> set (Addresses node). Type a = NodeExternalIP)"
  then show "\<exists>ep. nodeEndpoint K eval ns node = Inr (Some ep) \<and>
            Targets ep = map Address (filter (\<lambda>a. Type a = NodeExternalIP) (Addresses node))"
    using nodeEndpoint_processed nodeAddresses_external by blast
next
  assume "processed K eval ns node \<and> \<not> (\<exists>a \<in> set (Addresses node). Type a = NodeExternalIP) \<and>
      (\<exists>a \<in> set (Addresses node). Type a = NodeInternalIP)"
  then show "\<exists>ep. nodeEndpoint K eval ns node = Inr (Some ep) \<and>
            Targets ep = map Address (filter (\<lambda>a. Type a = NodeInternalIP) (Addresses node))"
    using nodeEndpoint_processed nodeAddresses_internal by blast
next
  assume a: "node \<in> set nodes \<and> processed K eval ns node \<and>
      \<not> (\<exists>a \<in> set (Addresses node). Type a = NodeExternalIP) \<and>
      \<not> (\<exists>a \<in> set (Addresses node). Type a = NodeInternalIP)"
  then have "nodeEndpoint K eval ns node = Inl (AddressUnavailableError (Name node))"
    using nodeEndpoint_fails nodeAddresses_neither by blast
  with a nodeSource_loop_fails show "\<exists>e. nodeSource_Endpoints K eval ns (Inr nodes) = Inl e"
    unfolding nodeSource_Endpoints_def by fastforce
qed

theorem C2_address_selection_witness:
  "(\<exists>ep. nodeEndpoint testReserved testEval testSource
           (testNode [\<lparr>Type = NodeExternalIP, Address = ''1.2.3.4''\<rparr>,
                      \<lparr>Type = NodeInternalIP, Address = ''2.3.4.5''\<rparr>] []) = Inr (Some ep) \<and>
         Targets ep = [''1.2.3.4'']) \<and>
   (\<exists>ep. nodeEndpoint testReserved testEval testSource
           (testNode [\<lparr>Type = NodeInternalIP, Address = ''2.3.4.5''\<rparr>] []) = Inr (Some ep) \<and>
         Targets ep = [''2.3.4.5'']) \<and>
   (\<exists>e. nodeSource_Endpoints testReserved testEval testSource (Inr [testNode [] []]) = Inl e)"
proof -
  let ?both = "testNode [\<lparr>Type = NodeExternalIP, Address = ''1.2.3.4''\<rparr>,
                         \<lparr>Type = NodeInternalIP, Address = ''2.3.4.5''\<rparr>] []"
  let ?internal = "testNode [\<lparr>Type = NodeInternalIP, Address = ''2.3.4.5''\<rparr>] []"
  let ?none = "testNode [] []"
  have a: "\<exists>ep. nodeEndpoint testReserved testEval testSource ?both = Inr (Some ep) \<and>
         Targets ep = [''1.2.3.4'']"
    using C2_address_selection [of testReserved testEval testSource ?both]
      testNode_processed(1) [of "Addresses ?both"]
    by (simp add: testNode_def)
  have b: "\<exists>ep. nodeEndpoint testReserved testEval testSource ?internal = Inr (Some ep) \<and>
         Targets ep = [''2.3.4.5'']"
    using C2_address_selection [of testReserved testEval testSource ?internal]
      testNode_processed(1) [of "Addresses ?internal"]
    by (simp add: testNode_def)
  have c: "\<exists>e. nodeSource_Endpoints testReserved testEval testSource (Inr [?none]) = Inl e"
    using C2_address_selection [of testReserved testEval testSource ?none "[?none]"]
      testNode_processed(1) [of "[]"]
    by (simp add: testNode_def)
  from a b c show ?thesis by (intro conjI)
qed

text \<open>
  Claim C8, on the producer as the spec describes it. For a node that is processed and
  has an address to emit, a TTL annotation that is absent, or present and not a
  non-negative integer, gives an endpoint whose RecordTTL is 0 and not configured, and
  no error; the annotation \<^verbatim>\<open>"10"\<close> gives RecordTTL 10, configured.
\<close>

theorem C8_ttl_resolution:
  "(processed K eval ns node \<and> nodeAddresses node = Inr targets \<and>
      (map_of (Annotations node) (ttlAnnotationKey K) = None \<or>
       (\<exists>v. map_of (Annotations node) (ttlAnnotationKey K) = Some v \<and>
            parseNonNegativeInt v = None)) \<longrightarrow>
      (\<exists>ep. nodeEndpoint K eval ns node = Inr (Some ep) \<and>
            seconds (RecordTTL ep) = 0 \<and> \<not> IsConfigured (RecordTTL ep))) \<and>
   (processed K eval ns node \<and> nodeAddresses node = Inr targets \<and>
      map_of (Annotations node) (ttlAnnotationKey K) = Some ''10'' \<longrightarrow>
      (\<exists>ep. nodeEndpoint K eval ns node = Inr (Some ep) \<and>
            seconds (RecordTTL ep) = 10 \<and> IsConfigured (RecordTTL ep)))"
proof (intro conjI impI)
  assume a: "processed K eval ns node \<and> nodeAddresses node = Inr targets \<and>
      (map_of (Annotations node) (ttlAnnotationKey K) = None \<or>
       (\<exists>v. map_of (Annotations node) (ttlAnnotationKey K) = Some v \<and>
            parseNonNegativeInt v = None))"
  then have "getTTLFromAnnotations K (Annotations node) = unconfiguredTTL"
    using getTTL_absent getTTL_invalid by blast
  moreover from a obtain ep where "nodeEndpoint K eval ns node = Inr (Some ep)"
    "RecordTTL ep = getTTLFromAnnotations K (Annotations node)"
    using nodeEndpoint_processed by blast
  ultimately show "\<exists>ep. nodeEndpoint K eval ns node = Inr (Some ep) \<and>
            seconds (RecordTTL ep) = 0 \<and> \<not> IsConfigured (RecordTTL ep)"
    by (simp add: unconfiguredTTL_def)
next
  assume a: "processed K eval ns node \<and> nodeAddresses node = Inr targets \<and>
      map_of (Annotations node) (ttlAnnotationKey K) = Some ''10''"
  then have "getTTLFromAnnotations K (Annotations node) = \<lparr>seconds = 10, IsConfigured = True\<rparr>"
    using getTTL_10 by blast
  moreover from a obtain ep where "nodeEndpoint K eval ns node = Inr (Some ep)"
    "RecordTTL ep = getTTLFromAnnotations K (Annotations node)"
    using nodeEndpoint_processed by blast
  ultimately show "\<exists>ep. nodeEndpoint K eval ns node = Inr (Some ep) \<and>
            seconds (RecordTTL ep) = 10 \<and> IsConfigured (RecordTTL ep)"
    by simp
qed

theorem C8_ttl_resolution_witness:
  "(\<exists>ep. nodeEndpoint testReserved testEval testSource
           (testNode [\<lparr>Type = NodeExternalIP, Address = ''1.2.3.4''\<rparr>] []) = Inr (Some ep) \<and>
         seconds (RecordTTL ep) = 0 \<and> \<not> IsConfigured (RecordTTL ep)) \<and>
   (\<exists>ep. nodeEndpoint testReserved testEval testSource
           (testNode [\<lparr>Type = NodeExternalIP, Address = ''1.2.3.4''\<rparr>] [(''ttl'', ''foo'')]) =
           Inr (Some ep) \<and>
         seconds (RecordTTL ep) = 0 \<and> \<not> IsConfigured (RecordTTL ep)) \<and>
   (\<exists>ep. nodeEndpoint testReserved testEval testSource
           (testNode [\<lparr>Type = NodeExternalIP, Address = ''1.2.3.4''\<rparr>] [(''ttl'', ''10'')]) =
           Inr (Some ep) \<and>
         seconds (RecordTTL ep) = 10 \<and> IsConfigured (RecordTTL ep))"
proof -
  let ?addresses = "[\<lparr>Type = NodeExternalIP, Address = ''1.2.3.4''\<rparr>]"
  have t: "nodeAddresses (testNode ?addresses annotations) = Inr [''1.2.3.4'']"
    for annotations
    by (simp add: nodeAddresses_def addressesOfType_def testNode_def)
  have a: "\<exists>ep. nodeEndpoint testReserved testEval testSource (testNode ?addresses []) =
             Inr (Some ep) \<and>
           seconds (RecordTTL ep) = 0 \<and> \<not> IsConfigured (RecordTTL ep)"
    using C8_ttl_resolution
        [of testReserved testEval testSource "testNode ?addresses []" "[''1.2.3.4'']"]
      testNode_processed(1) [of ?addresses] t [of "[]"]
    by (simp add: testNode_def)
  have b: "\<exists>ep. nodeEndpoint testReserved testEval testSource
             (testNode ?addresses [(''ttl'', ''foo'')]) = Inr (Some ep) \<and>
           seconds (RecordTTL ep) = 0 \<and> \<not> IsConfigured (RecordTTL ep)"
    using C8_ttl_resolution
        [of testReserved testEval testSource "testNode ?addresses [(''ttl'', ''foo'')]"
          "[''1.2.3.4'']"]
      testNode_processed(2) [of ?addresses "''foo''"] t [of "[(''ttl'', ''foo'')]"]
    by (simp add: testNode_def testReserved_def parseNonNegativeInt_foo)
  have c: "\<exists>ep. nodeEndpoint testReserved testEval testSource
             (testNode ?addresses [(''ttl'', ''10'')]) = Inr (Some ep) \<and>
           seconds (RecordTTL ep) = 10 \<and> IsConfigured (RecordTTL ep)"
    using C8_ttl_resolution
        [of testReserved testEval testSource "testNode ?addresses [(''ttl'', ''10'')]"
          "[''1.2.3.4'']"]
      testNode_processed(2) [of ?addresses "''10''"] t [of "[(''ttl'', ''10'')]"]
    by (simp add: testNode_def testReserved_def)
  from a b c show ?thesis by (intro conjI)
qed



end
